theory Spec2Isabelle
  imports Main "HOL-Library.Sublist"
begin

section \<open>The constraint expander of the ERF and REMORA package recipes\<close>

text \<open>
  Both recipes open with the same generator:
  \<^verbatim>\<open>
  def process_amrex_constraints():
      a1 = ['+', '~']
      a2 = ['mpi', 'cuda']
      a3 = [[x + y for x in a1] for y in a2]
      for k in itertools.product(*a3):
          if '+cuda' in k:
              for arch in CudaPackage.cuda_arch_values:
                  yield ''.join(k) + " cuda_arch=%s" % arch
          else:
              yield ''.join(k)
  \<close>
  The class \<open>CudaPackage\<close> belongs to the package manager and is not part of the
  recipes, so its attribute \<open>cuda_arch_values\<close> is a parameter of the model
  (\<open>arch_values\<close> below): a list of strings, in the order of the tuple.  The sequence of yielded strings is modelled as
  a list.
\<close>

subsection \<open>Local constants of the generator\<close>

definition a1 :: "string list" where
  "a1 = [''+'', ''~'']"

definition a2 :: "string list" where
  "a2 = [''mpi'', ''cuda'']"

text \<open>The nested comprehension: the outer loop runs over \<open>a2\<close>, the inner one over \<open>a1\<close>.\<close>

definition a3 :: "string list list" where
  "a3 = map (\<lambda>y. map (\<lambda>x. x @ y) a1) a2"

text \<open>
  \<open>itertools.product\<close> of a list of iterables: the tuples in lexicographic order of
  positions, the last position advancing fastest.
\<close>

fun itertools_product :: "'a list list \<Rightarrow> 'a list list" where
  "itertools_product [] = [[]]"
| "itertools_product (xs # xss) =
     concat (map (\<lambda>x. map (\<lambda>t. x # t) (itertools_product xss)) xs)"

text \<open>\<open>''.join(k)\<close>\<close>

definition join :: "string list \<Rightarrow> string" where
  "join k = concat k"

text \<open>\<open>" cuda_arch=%s" % arch\<close> for a string \<open>arch\<close>\<close>

definition cuda_arch_clause :: "string \<Rightarrow> string" where
  "cuda_arch_clause arch = '' cuda_arch='' @ arch"

subsection \<open>The generator of the ERF recipe\<close>

text \<open>The body of the outer loop: what one tuple \<open>k\<close> contributes to the output.\<close>

definition erf_loop_body :: "string list \<Rightarrow> string list \<Rightarrow> string list" where
  "erf_loop_body arch_values k =
     (if ''+cuda'' \<in> set k
      then map (\<lambda>arch. join k @ cuda_arch_clause arch) arch_values
      else [join k])"

definition erf_process_amrex_constraints :: "string list \<Rightarrow> string list" where
  "erf_process_amrex_constraints arch_values =
     concat (map (erf_loop_body arch_values) (itertools_product a3))"

subsection \<open>The generator of the REMORA recipe\<close>

definition remora_loop_body :: "string list \<Rightarrow> string list \<Rightarrow> string list" where
  "remora_loop_body arch_values k =
     (if ''+cuda'' \<in> set k
      then map (\<lambda>arch. join k @ cuda_arch_clause arch) arch_values
      else [join k])"

definition remora_process_amrex_constraints :: "string list \<Rightarrow> string list" where
  "remora_process_amrex_constraints arch_values =
     concat (map (remora_loop_body arch_values) (itertools_product a3))"

subsection \<open>The generator as a resumable computation\<close>

text \<open>
  The part of the interpreter state the generator looks at is the class attribute
  \<open>CudaPackage.cuda_arch_values\<close>; the record's extension stands for everything else.
\<close>

record world =
  cuda_arch_values :: "string list"

text \<open>
  A suspended generator: the tuples \<open>itertools.product\<close> has still to hand out, and,
  while the inner loop runs, the current tuple \<open>k\<close> with the tags that loop has still
  to visit.
\<close>

datatype frame =
  Frame (product_iter: "string list list")
        (inner_loop: "(string list \<times> string list) option")

text \<open>
  \<open>next\<close> on the generator: it runs to the next \<open>yield\<close> and returns the string with
  the suspended frame, or the loops run out and it returns \<open>None\<close> (StopIteration).
  The attribute is read when the inner loop is entered.  Nothing is written to the
  world, so none is returned.
\<close>

function erf_next :: "'a world_scheme \<Rightarrow> frame \<Rightarrow> (string \<times> frame) option" where
  "erf_next w (Frame ks (Some (k, arch # rest))) =
     Some (join k @ cuda_arch_clause arch, Frame ks (Some (k, rest)))"
| "erf_next w (Frame ks (Some (k, []))) = erf_next w (Frame ks None)"
| "erf_next w (Frame (k # ks) None) =
     (if ''+cuda'' \<in> set k
      then erf_next w (Frame ks (Some (k, cuda_arch_values w)))
      else Some (join k, Frame ks None))"
| "erf_next w (Frame [] None) = None"
  by pat_completeness auto
termination
  by (relation "measures [\<lambda>(w, fr). length (product_iter fr),
                          \<lambda>(w, fr). case inner_loop fr of None \<Rightarrow> 0 | Some _ \<Rightarrow> 1]") auto

text \<open>The number of tags the inner loop of a suspended frame has still to visit.\<close>

definition pending :: "frame \<Rightarrow> nat" where
  "pending fr = (case inner_loop fr of None \<Rightarrow> 0 | Some (k, rest) \<Rightarrow> length rest)"

text \<open>
  A caller that consumes the generator to the end, as the \<open>for opt in ...\<close> loops of the
  recipes do: the strings in the order of their production, and the world afterwards.
\<close>

function erf_run :: "'a world_scheme \<Rightarrow> frame \<Rightarrow> string list \<times> 'a world_scheme" where
  "erf_run w fr =
     (case erf_next w fr of
        None \<Rightarrow> ([], w)
      | Some (s, fr') \<Rightarrow> (case erf_run w fr' of (ss, w') \<Rightarrow> (s # ss, w')))"
  by pat_completeness auto
termination
proof (relation "inv_image (measures [\<lambda>fr. length (product_iter fr), pending]) snd")
  show "wf (inv_image (measures [\<lambda>fr. length (product_iter fr), pending]) snd)"
    by simp
next
  fix w :: "'a world_scheme" and fr p s fr'
  assume yielded: "erf_next w fr = Some p" "(s, fr') = p"
  have "erf_next w fr = Some (s, fr') \<Longrightarrow>
          (fr', fr) \<in> measures [\<lambda>fr. length (product_iter fr), pending]"
    by (induction w fr rule: erf_next.induct) (auto simp: pending_def split: if_splits)
  with yielded
  show "((w, fr'), (w, fr))
          \<in> inv_image (measures [\<lambda>fr. length (product_iter fr), pending]) snd"
    by simp
qed

declare erf_run.simps [simp del]

text \<open>A call of \<open>process_amrex_constraints()\<close>, consumed: the generator starts fresh.\<close>

definition erf_invoke :: "'a world_scheme \<Rightarrow> string list \<times> 'a world_scheme" where
  "erf_invoke w = erf_run w (Frame (itertools_product a3) None)"

section \<open>The \<open>libs\<close> property of the two recipes\<close>

text \<open>
  \<^verbatim>\<open>
  @property
  def libs(self):
      libsuffix = {'2': '2d', '3': '3d', 'rz': 'rz'}
      dims = self.spec.variants['dims'].value
      return find_libraries(
          ['liberf.' + libsuffix[dims]], root=self.prefix, recursive=True,
          shared=True
      )
  \<close>
  The value of a variant is a string or a boolean; a failed dictionary lookup raises
  \<open>KeyError\<close> with the key.
\<close>

datatype pyval = PyStr string | PyBool bool

datatype error = KeyError pyval

text \<open>The \<open>variant\<close> directives of each class body, in order: name and default.\<close>

definition erf_variants :: "(string \<times> pyval) list" where
  "erf_variants =
     [(''dimensions'', PyStr ''3''), (''shared'', PyBool False), (''mpi'', PyBool True),
      (''openmp'', PyBool False), (''precision'', PyStr ''double''), (''eb'', PyBool False),
      (''fortran'', PyBool False), (''hdf5'', PyBool False), (''tests'', PyBool True),
      (''netcdf'', PyBool True), (''internal-amrex'', PyBool True),
      (''fortran'', PyBool False)]"

definition remora_variants :: "(string \<times> pyval) list" where
  "remora_variants =
     [(''dimensions'', PyStr ''3''), (''shared'', PyBool False), (''mpi'', PyBool True),
      (''openmp'', PyBool False), (''precision'', PyStr ''double''), (''eb'', PyBool False),
      (''fortran'', PyBool False), (''hdf5'', PyBool False), (''tests'', PyBool True),
      (''netcdf'', PyBool True), (''internal-amrex'', PyBool True),
      (''fortran'', PyBool False)]"

definition libsuffix :: "pyval \<rightharpoonup> string" where
  "libsuffix = [PyStr ''2'' \<mapsto> ''2d'', PyStr ''3'' \<mapsto> ''3d'', PyStr ''rz'' \<mapsto> ''rz'']"

text \<open>
  \<open>find_libraries\<close> is a function of the package manager; it is a parameter here, applied
  to the list of library names and the \<open>root\<close> argument, the installation prefix
  (\<open>recursive\<close> and \<open>shared\<close> are constants of the call).  The argument \<open>variants\<close> is \<open>self.spec.variants\<close>.
\<close>

definition erf_libs ::
  "(string list \<Rightarrow> 'p \<Rightarrow> 'l) \<Rightarrow> 'p \<Rightarrow> (string \<rightharpoonup> pyval) \<Rightarrow> error + 'l" where
  "erf_libs find_libraries root variants =
     (case variants ''dims'' of
        None \<Rightarrow> Inl (KeyError (PyStr ''dims''))
      | Some dims \<Rightarrow>
          (case libsuffix dims of
             None \<Rightarrow> Inl (KeyError dims)
           | Some sfx \<Rightarrow> Inr (find_libraries [''liberf.'' @ sfx] root)))"

definition remora_libs ::
  "(string list \<Rightarrow> 'p \<Rightarrow> 'l) \<Rightarrow> 'p \<Rightarrow> (string \<rightharpoonup> pyval) \<Rightarrow> error + 'l" where
  "remora_libs find_libraries root variants =
     (case variants ''dims'' of
        None \<Rightarrow> Inl (KeyError (PyStr ''dims''))
      | Some dims \<Rightarrow>
          (case libsuffix dims of
             None \<Rightarrow> Inl (KeyError dims)
           | Some sfx \<Rightarrow> Inr (find_libraries [''liberf.'' @ sfx] root)))"

section \<open>Notions used to state the properties\<close>

text \<open>The two polarity tokens of a feature: \<open>[x + y for x in a1]\<close> at \<open>y = f\<close>.\<close>

definition polarity_tokens :: "string \<Rightarrow> string list" where
  "polarity_tokens f = map (\<lambda>x. x @ f) a1"

text \<open>
  The strings of an output sequence that belong to the combination \<open>k\<close>: those that
  begin with the concatenation of its tokens.
\<close>

definition emitted_for :: "string list \<Rightarrow> string list \<Rightarrow> string list" where
  "emitted_for k out = filter (prefix (join k)) out"

text \<open>The number of positions of \<open>s\<close> at which the text \<open>t\<close> begins.\<close>

fun occurrences :: "string \<Rightarrow> string \<Rightarrow> nat" where
  "occurrences t [] = 0"
| "occurrences t (c # cs) = (if prefix t (c # cs) then 1 else 0) + occurrences t cs"

text \<open>
  What a suspended generator has still to yield when the tag list is \<open>A\<close>: the rest of the
  inner loop, then the loop body at each tuple that is left.
\<close>

fun remaining :: "string list \<Rightarrow> frame \<Rightarrow> string list" where
  "remaining A (Frame ks None) = concat (map (erf_loop_body A) ks)"
| "remaining A (Frame ks (Some (k, rest))) =
     map (\<lambda>arch. join k @ cuda_arch_clause arch) rest @ concat (map (erf_loop_body A) ks)"

text \<open>The variant names a class body declares.\<close>

definition declared_names :: "(string \<times> pyval) list \<Rightarrow> string set" where
  "declared_names directives = set (map fst directives)"

section \<open>Properties of the expander\<close>

subsection \<open>The base combinations\<close>

lemma a3_eq: "a3 = [[''+mpi'', ''~mpi''], [''+cuda'', ''~cuda'']]"
  by (simp add: a3_def a2_def a1_def)

lemma product_a3:
  "itertools_product a3 =
     [[''+mpi'', ''+cuda''], [''+mpi'', ''~cuda''], [''~mpi'', ''+cuda''], [''~mpi'', ''~cuda'']]"
  by (simp add: a3_eq)

lemma itertools_product_length:
  "length (itertools_product xss) = prod_list (map length xss)"
proof (induction xss)
  case Nil
  show ?case by simp
next
  case (Cons xs xss)
  have "length (concat (map (\<lambda>x. map (\<lambda>t. x # t) (itertools_product xss)) xs))
        = length xs * length (itertools_product xss)"
    by (induction xs) simp_all
  with Cons show ?case by simp
qed


text \<open>
  C1: with the feature list \<open>['mpi', 'cuda']\<close> and the polarities \<open>['+', '~']\<close> the
  generator iterates over exactly four base combinations, each one the polarity-prefixed
  \<open>mpi\<close> token followed by the polarity-prefixed \<open>cuda\<close> token, in the order
  \<open>+mpi+cuda\<close>, \<open>+mpi~cuda\<close>, \<open>~mpi+cuda\<close>, \<open>~mpi~cuda\<close>; the output is what the loop
  body makes of these four, one after the other.
\<close>

theorem base_combinations:
  "length (itertools_product a3) = 4
   \<and> itertools_product a3 = [[p @ ''mpi'', q @ ''cuda'']. p \<leftarrow> a1, q \<leftarrow> a1]
   \<and> map join (itertools_product a3)
       = [''+mpi+cuda'', ''+mpi~cuda'', ''~mpi+cuda'', ''~mpi~cuda'']
   \<and> erf_process_amrex_constraints A
       = concat (map (erf_loop_body A)
           [[''+mpi'', ''+cuda''], [''+mpi'', ''~cuda''], [''~mpi'', ''+cuda''],
            [''~mpi'', ''~cuda'']])"
  by (simp add: product_a3 a1_def join_def erf_process_amrex_constraints_def)

subsection \<open>The output in closed form\<close>

lemma erf_closed_form:
  "erf_process_amrex_constraints A =
     map (\<lambda>arch. ''+mpi+cuda cuda_arch='' @ arch) A @ [''+mpi~cuda'']
     @ map (\<lambda>arch. ''~mpi+cuda cuda_arch='' @ arch) A @ [''~mpi~cuda'']"
  by (simp add: erf_process_amrex_constraints_def erf_loop_body_def product_a3
      join_def cuda_arch_clause_def)

lemma filter_map_all: "(\<And>x. P (f x)) \<Longrightarrow> filter P (map f xs) = map f xs"
  by (induction xs) simp_all

lemma filter_map_none: "(\<And>x. \<not> P (f x)) \<Longrightarrow> filter P (map f xs) = []"
  by (induction xs) simp_all

text \<open>
  The four base strings are distinct and equally long, so the strings of the output that
  begin with one of them are exactly the strings the loop body yields for that tuple.
\<close>

lemma emitted_for_loop_body:
  assumes "k \<in> set (itertools_product a3)"
  shows "emitted_for k (erf_process_amrex_constraints A) = erf_loop_body A k"
proof -
  from assms consider "k = [''+mpi'', ''+cuda'']" | "k = [''+mpi'', ''~cuda'']"
    | "k = [''~mpi'', ''+cuda'']" | "k = [''~mpi'', ''~cuda'']"
    by (auto simp: product_a3)
  then show ?thesis
  proof cases
    case 1
    then show ?thesis
      by (simp add: emitted_for_def erf_closed_form erf_loop_body_def join_def
          cuda_arch_clause_def filter_map_all filter_map_none)
  next
    case 2
    then show ?thesis
      by (simp add: emitted_for_def erf_closed_form erf_loop_body_def join_def
          cuda_arch_clause_def filter_map_all filter_map_none)
  next
    case 3
    then show ?thesis
      by (simp add: emitted_for_def erf_closed_form erf_loop_body_def join_def
          cuda_arch_clause_def filter_map_all filter_map_none)
  next
    case 4
    then show ?thesis
      by (simp add: emitted_for_def erf_closed_form erf_loop_body_def join_def
          cuda_arch_clause_def filter_map_all filter_map_none)
  qed
qed

lemma cuda_polarity:
  assumes "k \<in> set (itertools_product a3)"
  shows "''~cuda'' \<in> set k \<longleftrightarrow> ''+cuda'' \<notin> set k"
  using assms by (auto simp: product_a3)

subsection \<open>Counting the output\<close>

text \<open>
  C2: for every sequence \<open>A\<close> of architecture tags the generator yields
  \<open>2^(|F|-1) * |A| + 2^(|F|-1)\<close> strings, where \<open>F\<close> is the feature list \<open>a2\<close>; with its
  two features that is \<open>2 * |A| + 2\<close>.
\<close>

theorem total_count:
  "length (erf_process_amrex_constraints A)
     = 2 ^ (length a2 - 1) * length A + 2 ^ (length a2 - 1)
   \<and> length (erf_process_amrex_constraints A) = 2 * length A + 2"
  by (simp add: erf_closed_form a2_def)

subsection \<open>What each combination contributes\<close>

text \<open>
  C3: for every tag sequence \<open>A\<close> and every base combination \<open>k\<close> that contains the token
  \<open>+cuda\<close>, the generator yields exactly \<open>|A|\<close> strings for \<open>k\<close>, the \<open>i\<close>-th of them
  ending in the selector clause of the \<open>i\<close>-th tag; when \<open>A\<close> is empty it yields none.
\<close>

theorem enabled_cuda_one_string_per_arch:
  assumes "k \<in> set (itertools_product a3)" and "''+cuda'' \<in> set k"
  shows "length (emitted_for k (erf_process_amrex_constraints A)) = length A
         \<and> emitted_for k (erf_process_amrex_constraints A) = erf_loop_body A k
         \<and> (\<forall>i < length A.
               suffix (cuda_arch_clause (A ! i))
                 (emitted_for k (erf_process_amrex_constraints A) ! i))
         \<and> (A = [] \<longrightarrow> emitted_for k (erf_process_amrex_constraints A) = [])"
proof -
  have body: "erf_loop_body A k = map (\<lambda>arch. join k @ cuda_arch_clause arch) A"
    using assms(2) by (simp add: erf_loop_body_def)
  have eq: "emitted_for k (erf_process_amrex_constraints A)
              = map (\<lambda>arch. join k @ cuda_arch_clause arch) A"
    using emitted_for_loop_body [OF assms(1), of A] body by simp
  show ?thesis
    unfolding eq by (simp add: body suffix_def)
qed

theorem enabled_cuda_one_string_per_arch_witness:
  "[''~mpi'', ''+cuda''] \<in> set (itertools_product a3)
   \<and> ''+cuda'' \<in> set [''~mpi'', ''+cuda'']
   \<and> length (emitted_for [''~mpi'', ''+cuda'']
         (erf_process_amrex_constraints [''70'', ''80''])) = 2
   \<and> emitted_for [''~mpi'', ''+cuda''] (erf_process_amrex_constraints [''70'', ''80''])
       = [''~mpi+cuda cuda_arch=70'', ''~mpi+cuda cuda_arch=80'']
   \<and> suffix '' cuda_arch=80''
       (emitted_for [''~mpi'', ''+cuda''] (erf_process_amrex_constraints [''70'', ''80'']) ! 1)
   \<and> emitted_for [''~mpi'', ''+cuda''] (erf_process_amrex_constraints []) = []"
proof -
  have h1: "[''~mpi'', ''+cuda''] \<in> set (itertools_product a3)"
    by (simp add: product_a3)
  have h2: "''+cuda'' \<in> set [''~mpi'', ''+cuda'']"
    by simp
  have e: "erf_loop_body [''70'', ''80''] [''~mpi'', ''+cuda'']
            = [''~mpi+cuda cuda_arch=70'', ''~mpi+cuda cuda_arch=80'']"
    by (simp add: erf_loop_body_def join_def cuda_arch_clause_def)
  note full = enabled_cuda_one_string_per_arch [OF h1 h2, of "[''70'', ''80'']"]
  note empty = enabled_cuda_one_string_per_arch [OF h1 h2, of "[]"]
  from full e have len: "length (emitted_for [''~mpi'', ''+cuda'']
         (erf_process_amrex_constraints [''70'', ''80''])) = 2"
    by simp
  from full e have eq: "emitted_for [''~mpi'', ''+cuda'']
      (erf_process_amrex_constraints [''70'', ''80''])
       = [''~mpi+cuda cuda_arch=70'', ''~mpi+cuda cuda_arch=80'']"
    by simp
  from full e have "suffix (cuda_arch_clause ([''70'', ''80''] ! 1))
       (emitted_for [''~mpi'', ''+cuda''] (erf_process_amrex_constraints [''70'', ''80'']) ! 1)"
    by (auto simp: All_less_Suc)
  then have suf: "suffix '' cuda_arch=80''
       (emitted_for [''~mpi'', ''+cuda''] (erf_process_amrex_constraints [''70'', ''80'']) ! 1)"
    by (simp add: cuda_arch_clause_def)
  from empty have nil: "emitted_for [''~mpi'', ''+cuda''] (erf_process_amrex_constraints []) = []"
    by simp
  from h1 h2 len eq suf nil show ?thesis
    by blast
qed

text \<open>
  C4: for every tag sequence \<open>A\<close> and every base combination \<open>k\<close> that contains the token
  \<open>~cuda\<close>, the generator yields exactly one string for \<open>k\<close>: the concatenation of its
  tokens, with nothing after it.
\<close>

theorem disabled_cuda_one_string:
  assumes "k \<in> set (itertools_product a3)" and "''~cuda'' \<in> set k"
  shows "emitted_for k (erf_process_amrex_constraints A) = [join k]
         \<and> erf_loop_body A k = [join k]"
  using assms emitted_for_loop_body [OF assms(1), of A] cuda_polarity [OF assms(1)]
  by (simp add: erf_loop_body_def)

theorem disabled_cuda_one_string_witness:
  "[''+mpi'', ''~cuda''] \<in> set (itertools_product a3)
   \<and> ''~cuda'' \<in> set [''+mpi'', ''~cuda'']
   \<and> emitted_for [''+mpi'', ''~cuda''] (erf_process_amrex_constraints [''70'', ''80''])
       = [''+mpi~cuda'']
   \<and> erf_loop_body [''70'', ''80''] [''+mpi'', ''~cuda''] = [''+mpi~cuda'']"
proof -
  have h1: "[''+mpi'', ''~cuda''] \<in> set (itertools_product a3)"
    by (simp add: product_a3)
  have h2: "''~cuda'' \<in> set [''+mpi'', ''~cuda'']"
    by simp
  from disabled_cuda_one_string [OF h1 h2, of "[''70'', ''80'']"] h1 h2
  show ?thesis
    by (simp add: join_def)
qed

text \<open>
  C9: for a base combination \<open>k\<close> with \<open>+cuda\<close>, the strings yielded for \<open>k\<close> are, in
  the order of the tags in \<open>A\<close>, the base string followed by one space, the text
  \<open>cuda_arch=\<close> and the tag.
\<close>

theorem arch_clause_format_and_order:
  assumes "k \<in> set (itertools_product a3)" and "''+cuda'' \<in> set k"
  shows "emitted_for k (erf_process_amrex_constraints A)
           = map (\<lambda>arch. join k @ '' '' @ ''cuda_arch='' @ arch) A"
  using assms emitted_for_loop_body [OF assms(1), of A]
  by (simp add: erf_loop_body_def cuda_arch_clause_def)

theorem arch_clause_format_and_order_witness:
  "[''+mpi'', ''+cuda''] \<in> set (itertools_product a3)
   \<and> ''+cuda'' \<in> set [''+mpi'', ''+cuda'']
   \<and> emitted_for [''+mpi'', ''+cuda''] (erf_process_amrex_constraints [''90'', ''35'', ''70''])
       = [''+mpi+cuda cuda_arch=90'', ''+mpi+cuda cuda_arch=35'', ''+mpi+cuda cuda_arch=70'']"
proof -
  have h1: "[''+mpi'', ''+cuda''] \<in> set (itertools_product a3)"
    by (simp add: product_a3)
  have h2: "''+cuda'' \<in> set [''+mpi'', ''+cuda'']"
    by simp
  from arch_clause_format_and_order [OF h1 h2, of "[''90'', ''35'', ''70'']"] h1 h2
  show ?thesis
    by (simp add: join_def)
qed

subsection \<open>One token per feature\<close>

lemma tokens_of_combination:
  assumes "k \<in> set (itertools_product a3)"
  shows "\<forall>f \<in> set a2. length (filter (\<lambda>t. t \<in> set (polarity_tokens f)) k) = 1"
proof -
  from assms consider "k = [''+mpi'', ''+cuda'']" | "k = [''+mpi'', ''~cuda'']"
    | "k = [''~mpi'', ''+cuda'']" | "k = [''~mpi'', ''~cuda'']"
    by (auto simp: product_a3)
  then show ?thesis
    by cases (simp_all add: a2_def a1_def polarity_tokens_def)
qed

text \<open>
  C5: every yielded string is the concatenation of the tokens of a tuple \<open>k\<close> that holds
  exactly one polarity token (\<open>+f\<close> or \<open>~f\<close>) for each feature \<open>f\<close> of the feature list,
  followed by a suffix that is empty unless \<open>+cuda\<close> is among the tokens of \<open>k\<close>, in
  which case it is the selector clause of a tag of \<open>A\<close>.
\<close>

theorem one_token_per_feature:
  assumes "s \<in> set (erf_process_amrex_constraints A)"
  shows "\<exists>k sfx. k \<in> set (itertools_product a3) \<and> s = join k @ sfx
           \<and> (\<forall>f \<in> set a2. length (filter (\<lambda>t. t \<in> set (polarity_tokens f)) k) = 1)
           \<and> (sfx \<noteq> [] \<longrightarrow>
                ''+cuda'' \<in> set k \<and> (\<exists>arch \<in> set A. sfx = cuda_arch_clause arch))"
proof -
  from assms obtain k where k: "k \<in> set (itertools_product a3)" and s: "s \<in> set (erf_loop_body A k)"
    by (auto simp: erf_process_amrex_constraints_def)
  note tok = tokens_of_combination [OF k]
  show ?thesis
  proof (cases "''+cuda'' \<in> set k")
    case True
    with s obtain arch where "arch \<in> set A" "s = join k @ cuda_arch_clause arch"
      by (auto simp: erf_loop_body_def)
    with k tok True show ?thesis by blast
  next
    case False
    with s have "s = join k @ []"
      by (simp add: erf_loop_body_def)
    with k tok show ?thesis by blast
  qed
qed

theorem one_token_per_feature_witness:
  "''~mpi+cuda cuda_arch=70'' \<in> set (erf_process_amrex_constraints [''70''])
   \<and> (\<exists>k sfx. k \<in> set (itertools_product a3) \<and> ''~mpi+cuda cuda_arch=70'' = join k @ sfx
           \<and> (\<forall>f \<in> set a2. length (filter (\<lambda>t. t \<in> set (polarity_tokens f)) k) = 1)
           \<and> (sfx \<noteq> [] \<longrightarrow>
                ''+cuda'' \<in> set k \<and> (\<exists>arch \<in> set [''70'']. sfx = cuda_arch_clause arch)))"
proof -
  have h: "''~mpi+cuda cuda_arch=70'' \<in> set (erf_process_amrex_constraints [''70''])"
    by (simp add: erf_closed_form)
  from one_token_per_feature [OF h] h show ?thesis
    by simp
qed

text \<open>
  The same count read off the characters of the string holds when no tag contains a
  polarity character; a tag is otherwise copied into the string as it is.
\<close>

lemma occurrences_absent: "c \<notin> set s \<Longrightarrow> occurrences (c # t) s = 0"
  by (induction s) simp_all

lemma one_occurrence_per_feature:
  assumes tags: "\<forall>arch \<in> set A. CHR ''+'' \<notin> set arch \<and> CHR ''~'' \<notin> set arch"
    and s: "s \<in> set (erf_process_amrex_constraints A)"
  shows "\<forall>f \<in> set a2. occurrences (''+'' @ f) s + occurrences (''~'' @ f) s = 1"
proof -
  from s consider arch where "arch \<in> set A" "s = ''+mpi+cuda cuda_arch='' @ arch"
    | "s = ''+mpi~cuda''"
    | arch where "arch \<in> set A" "s = ''~mpi+cuda cuda_arch='' @ arch"
    | "s = ''~mpi~cuda''"
    by (auto simp: erf_closed_form)
  then show ?thesis
  proof cases
    case 1
    with tags show ?thesis by (simp add: a2_def occurrences_absent)
  next
    case 2
    then show ?thesis by (simp add: a2_def)
  next
    case 3
    with tags show ?thesis by (simp add: a2_def occurrences_absent)
  next
    case 4
    then show ?thesis by (simp add: a2_def)
  qed
qed

lemma occurrences_in_tag:
  "occurrences ''+mpi'' ''+mpi+cuda cuda_arch=+mpi'' = 2"
  by simp

subsection \<open>The two recipes\<close>

text \<open>
  C6: the generator of the REMORA recipe and the generator of the ERF recipe yield the
  same strings in the same order, for every tag sequence.
\<close>

theorem erf_remora_same_generator:
  "remora_process_amrex_constraints A = erf_process_amrex_constraints A"
proof -
  have "remora_loop_body A = erf_loop_body A"
    by (rule ext) (simp add: remora_loop_body_def erf_loop_body_def)
  then show ?thesis
    by (simp add: remora_process_amrex_constraints_def erf_process_amrex_constraints_def)
qed

subsection \<open>Running the generator\<close>

lemma erf_next_remaining:
  "remaining (cuda_arch_values w) fr =
     (case erf_next w fr of
        None \<Rightarrow> []
      | Some (s, fr') \<Rightarrow> s # remaining (cuda_arch_values w) fr')"
  by (induction w fr rule: erf_next.induct) (simp_all add: erf_loop_body_def)

lemma erf_run_remaining: "erf_run w fr = (remaining (cuda_arch_values w) fr, w)"
proof (induction w fr rule: erf_run.induct)
  case (1 w fr)
  show ?case
  proof (cases "erf_next w fr")
    case None
    then show ?thesis
      using erf_next_remaining [of w fr] by (simp add: erf_run.simps [of w fr])
  next
    case (Some p)
    obtain s fr' where p: "p = (s, fr')" by (cases p)
    from "1.IH" [OF Some p [symmetric]] Some p show ?thesis
      using erf_next_remaining [of w fr] by (simp add: erf_run.simps [of w fr])
  qed
qed

lemma erf_invoke_eq:
  "erf_invoke w = (erf_process_amrex_constraints (cuda_arch_values w), w)"
  by (simp add: erf_invoke_def erf_run_remaining erf_process_amrex_constraints_def)

text \<open>
  C7: two calls in worlds that hold the same architecture tags yield the same sequence
  of strings, and so does a call that follows another call.
\<close>

theorem invocations_agree:
  "(cuda_arch_values w1 = cuda_arch_values w2 \<longrightarrow> fst (erf_invoke w1) = fst (erf_invoke w2))
   \<and> (erf_invoke w = (out, w') \<longrightarrow> fst (erf_invoke w') = out)"
  by (auto simp: erf_invoke_eq)

theorem invocations_agree_witness:
  "cuda_arch_values \<lparr>cuda_arch_values = [''70'', ''80'']\<rparr>
     = cuda_arch_values \<lparr>cuda_arch_values = [''70'', ''80''], \<dots> = True\<rparr>
   \<and> fst (erf_invoke \<lparr>cuda_arch_values = [''70'', ''80'']\<rparr>)
       = fst (erf_invoke \<lparr>cuda_arch_values = [''70'', ''80''], \<dots> = True\<rparr>)
   \<and> erf_invoke \<lparr>cuda_arch_values = [''70'', ''80'']\<rparr>
       = ([''+mpi+cuda cuda_arch=70'', ''+mpi+cuda cuda_arch=80'', ''+mpi~cuda'',
           ''~mpi+cuda cuda_arch=70'', ''~mpi+cuda cuda_arch=80'', ''~mpi~cuda''],
          \<lparr>cuda_arch_values = [''70'', ''80'']\<rparr>)
   \<and> fst (erf_invoke \<lparr>cuda_arch_values = [''70'', ''80'']\<rparr>)
       = [''+mpi+cuda cuda_arch=70'', ''+mpi+cuda cuda_arch=80'', ''+mpi~cuda'',
          ''~mpi+cuda cuda_arch=70'', ''~mpi+cuda cuda_arch=80'', ''~mpi~cuda'']"
proof -
  have h1: "cuda_arch_values \<lparr>cuda_arch_values = [''70'', ''80'']\<rparr>
     = cuda_arch_values \<lparr>cuda_arch_values = [''70'', ''80''], \<dots> = True\<rparr>"
    by simp
  have h2: "erf_invoke \<lparr>cuda_arch_values = [''70'', ''80'']\<rparr>
       = ([''+mpi+cuda cuda_arch=70'', ''+mpi+cuda cuda_arch=80'', ''+mpi~cuda'',
           ''~mpi+cuda cuda_arch=70'', ''~mpi+cuda cuda_arch=80'', ''~mpi~cuda''],
          \<lparr>cuda_arch_values = [''70'', ''80'']\<rparr>)"
    by (simp add: erf_invoke_def erf_run.simps product_a3 join_def cuda_arch_clause_def)
  from invocations_agree [of "\<lparr>cuda_arch_values = [''70'', ''80'']\<rparr>"
      "\<lparr>cuda_arch_values = [''70'', ''80''], \<dots> = True\<rparr>"
      "\<lparr>cuda_arch_values = [''70'', ''80'']\<rparr>"
      "[''+mpi+cuda cuda_arch=70'', ''+mpi+cuda cuda_arch=80'', ''+mpi~cuda'',
           ''~mpi+cuda cuda_arch=70'', ''~mpi+cuda cuda_arch=80'', ''~mpi~cuda'']"
      "\<lparr>cuda_arch_values = [''70'', ''80'']\<rparr>"] h1 h2
  show ?thesis
    by simp
qed

text \<open>
  C8: in every world a call runs to the end of the generator; it yields the finite
  sequence of \<open>2 * |A| + 2\<close> strings described above, where \<open>A\<close> is the tag list of the
  world, raises nothing, and leaves the world as it found it.
\<close>

theorem total_and_effect_free:
  "erf_invoke w = (erf_process_amrex_constraints (cuda_arch_values w), w)
   \<and> length (fst (erf_invoke w)) = 2 * length (cuda_arch_values w) + 2"
  by (simp add: erf_invoke_eq erf_closed_form)

section \<open>Properties of \<open>libs\<close>\<close>

lemma erf_declared_names:
  "declared_names erf_variants =
     {''dimensions'', ''shared'', ''mpi'', ''openmp'', ''precision'', ''eb'', ''fortran'',
      ''hdf5'', ''tests'', ''netcdf'', ''internal-amrex''}"
  by (auto simp: declared_names_def erf_variants_def)

lemma remora_declared_names: "declared_names remora_variants = declared_names erf_variants"
  by (simp add: declared_names_def remora_variants_def erf_variants_def)

lemma dims_not_declared:
  "''dims'' \<notin> declared_names erf_variants" "''dimensions'' \<in> declared_names erf_variants"
  by (simp_all add: erf_declared_names)

lemma erf_libs_no_dims:
  "''dims'' \<notin> dom vs \<Longrightarrow> erf_libs fl root vs = Inl (KeyError (PyStr ''dims''))"
  by (auto simp: erf_libs_def dom_def)

lemma remora_libs_no_dims:
  "''dims'' \<notin> dom vs \<Longrightarrow> remora_libs fl root vs = Inl (KeyError (PyStr ''dims''))"
  by (auto simp: remora_libs_def dom_def)

text \<open>
  C10: \<open>libs\<close> looks up the variant \<open>dims\<close>, and neither class body declares a variant of
  that name (the one declared is \<open>dimensions\<close>).  So for a spec whose variants are the
  declared ones, together with any inherited ones not named \<open>dims\<close>, the lookup fails
  and \<open>libs\<close> raises \<open>KeyError\<close>.
\<close>

theorem libs_dims_lookup_fails:
  assumes "''dims'' \<notin> inherited"
  shows "''dims'' \<notin> declared_names erf_variants
    \<and> ''dimensions'' \<in> declared_names erf_variants
    \<and> ''dims'' \<notin> declared_names remora_variants
    \<and> ''dimensions'' \<in> declared_names remora_variants
    \<and> (dom vs = declared_names erf_variants \<union> inherited
          \<longrightarrow> erf_libs find_libraries root vs = Inl (KeyError (PyStr ''dims'')))
    \<and> (dom vs = declared_names remora_variants \<union> inherited
          \<longrightarrow> remora_libs find_libraries root vs = Inl (KeyError (PyStr ''dims'')))"
proof -
  have absent: "''dims'' \<notin> dom vs" if "dom vs = declared_names erf_variants \<union> inherited"
    using that dims_not_declared(1) assms by simp
  have erf: "dom vs = declared_names erf_variants \<union> inherited
          \<longrightarrow> erf_libs find_libraries root vs = Inl (KeyError (PyStr ''dims''))"
    using absent by (blast intro: erf_libs_no_dims)
  have remora: "dom vs = declared_names remora_variants \<union> inherited
          \<longrightarrow> remora_libs find_libraries root vs = Inl (KeyError (PyStr ''dims''))"
    unfolding remora_declared_names using absent by (blast intro: remora_libs_no_dims)
  from dims_not_declared erf remora show ?thesis
    unfolding remora_declared_names by blast
qed

theorem libs_dims_lookup_fails_witness:
  "''dims'' \<notin> {''cuda'', ''rocm''}
   \<and> dom (map_of (erf_variants @ [(''cuda'', PyBool False), (''rocm'', PyBool False)]))
       = declared_names erf_variants \<union> {''cuda'', ''rocm''}
   \<and> erf_libs (\<lambda>names root. names) ''/opt/erf''
        (map_of (erf_variants @ [(''cuda'', PyBool False), (''rocm'', PyBool False)]))
       = Inl (KeyError (PyStr ''dims''))
   \<and> dom (map_of (remora_variants @ [(''cuda'', PyBool False), (''rocm'', PyBool False)]))
       = declared_names remora_variants \<union> {''cuda'', ''rocm''}
   \<and> remora_libs (\<lambda>names root. names) ''/opt/remora''
        (map_of (remora_variants @ [(''cuda'', PyBool False), (''rocm'', PyBool False)]))
       = Inl (KeyError (PyStr ''dims''))"
proof -
  have h: "''dims'' \<notin> {''cuda'', ''rocm''}"
    by simp
  have d1: "dom (map_of (erf_variants @ [(''cuda'', PyBool False), (''rocm'', PyBool False)]))
       = declared_names erf_variants \<union> {''cuda'', ''rocm''}"
    by (auto simp: dom_map_of_conv_image_fst declared_names_def)
  have d2: "dom (map_of (remora_variants @ [(''cuda'', PyBool False), (''rocm'', PyBool False)]))
       = declared_names remora_variants \<union> {''cuda'', ''rocm''}"
    by (auto simp: dom_map_of_conv_image_fst declared_names_def)
  note erf = libs_dims_lookup_fails [OF h,
      of "map_of (erf_variants @ [(''cuda'', PyBool False), (''rocm'', PyBool False)])"
         "\<lambda>names root. names" "''/opt/erf''"]
  note remora = libs_dims_lookup_fails [OF h,
      of "map_of (remora_variants @ [(''cuda'', PyBool False), (''rocm'', PyBool False)])"
         "\<lambda>names root. names" "''/opt/remora''"]
  from erf d1 have e: "erf_libs (\<lambda>names root. names) ''/opt/erf''
        (map_of (erf_variants @ [(''cuda'', PyBool False), (''rocm'', PyBool False)]))
       = Inl (KeyError (PyStr ''dims''))"
    by blast
  from remora d2 have r: "remora_libs (\<lambda>names root. names) ''/opt/remora''
        (map_of (remora_variants @ [(''cuda'', PyBool False), (''rocm'', PyBool False)]))
       = Inl (KeyError (PyStr ''dims''))"
    by blast
  from h d1 d2 e r show ?thesis
    by blast
qed

text \<open>The lookup succeeds only for a spec that carries a variant named \<open>dims\<close>.\<close>

lemma erf_libs_with_dims:
  "erf_libs (\<lambda>names root. names) r [''dims'' \<mapsto> PyStr ''3''] = Inr [''liberf.3d'']"
  by (simp add: erf_libs_def libsuffix_def)

end
